theory Spec2Isabelle
  imports Main "HOL-Library.Sublist" "HOL-Library.AList" "HOL-Library.Char_ord"
    "HOL-Library.List_Lexorder" "HOL-Library.Code_Target_Nat"
begin

section \<open>JavaScript strings\<close>

text \<open>
  A JavaScript string is a sequence of code units. The model uses \<^typ>\<open>string\<close>, whose
  characters are the code units below 256 (ISO-8859-1); \<open>length\<close> is the source's
  \<open>.length\<close>. The two characters of the fixed report texts that lie outside that range
  (the typographic apostrophe and the en dash) are written \<open>'\<close> and \<open>-\<close>; each is one
  code unit in the source as well, so no length changes.
\<close>

definition upperChars :: string where
  "upperChars = ''ABCDEFGHIJKLMNOPQRSTUVWXYZ'' @
     [CHR 0xC0, CHR 0xC1, CHR 0xC2, CHR 0xC3, CHR 0xC4, CHR 0xC5, CHR 0xC6, CHR 0xC7,
      CHR 0xC8, CHR 0xC9, CHR 0xCA, CHR 0xCB, CHR 0xCC, CHR 0xCD, CHR 0xCE, CHR 0xCF,
      CHR 0xD0, CHR 0xD1, CHR 0xD2, CHR 0xD3, CHR 0xD4, CHR 0xD5, CHR 0xD6,
      CHR 0xD8, CHR 0xD9, CHR 0xDA, CHR 0xDB, CHR 0xDC, CHR 0xDD, CHR 0xDE]"

definition lowerChars :: string where
  "lowerChars = ''abcdefghijklmnopqrstuvwxyz'' @
     [CHR 0xE0, CHR 0xE1, CHR 0xE2, CHR 0xE3, CHR 0xE4, CHR 0xE5, CHR 0xE6, CHR 0xE7,
      CHR 0xE8, CHR 0xE9, CHR 0xEA, CHR 0xEB, CHR 0xEC, CHR 0xED, CHR 0xEE, CHR 0xEF,
      CHR 0xF0, CHR 0xF1, CHR 0xF2, CHR 0xF3, CHR 0xF4, CHR 0xF5, CHR 0xF6,
      CHR 0xF8, CHR 0xF9, CHR 0xFA, CHR 0xFB, CHR 0xFC, CHR 0xFD, CHR 0xFE]"

definition toLowerChar :: "char \<Rightarrow> char" where
  "toLowerChar c = (case map_of (zip upperChars lowerChars) c of Some d \<Rightarrow> d | None \<Rightarrow> c)"

definition toLowerCase :: "string \<Rightarrow> string" where
  "toLowerCase s = map toLowerChar s"

text \<open>White space and line terminators of ECMAScript, among the code units below 256.\<close>

definition isWhiteSpace :: "char \<Rightarrow> bool" where
  "isWhiteSpace c =
     (c \<in> set [CHR 0x09, CHR 0x0A, CHR 0x0B, CHR 0x0C, CHR 0x0D, CHR 0x20, CHR 0xA0])"

definition isLineTerminator :: "char \<Rightarrow> bool" where
  "isLineTerminator c = (c = CHR 0x0A \<or> c = CHR 0x0D)"

definition isWordChar :: "char \<Rightarrow> bool" where
  "isWordChar c =
     (c \<in> set (''abcdefghijklmnopqrstuvwxyz'' @ ''ABCDEFGHIJKLMNOPQRSTUVWXYZ'' @ ''0123456789_''))"

text \<open>The low five bits of a code unit are between 1 and 26: a letter's position.\<close>

definition letterBits :: "bool \<Rightarrow> bool \<Rightarrow> bool \<Rightarrow> bool \<Rightarrow> bool \<Rightarrow> bool" where
  "letterBits b0 b1 b2 b3 b4 =
     ((b0 \<or> b1 \<or> b2 \<or> b3 \<or> b4) \<and> \<not> (b4 \<and> b3 \<and> (b2 \<or> (b1 \<and> b0))))"

definition trim :: "string \<Rightarrow> string" where
  "trim s = rev (dropWhile isWhiteSpace (rev (dropWhile isWhiteSpace s)))"

definition startsWith :: "string \<Rightarrow> string \<Rightarrow> bool" where
  "startsWith s t = prefix t s"

definition endsWith :: "string \<Rightarrow> string \<Rightarrow> bool" where
  "endsWith s t = suffix t s"

text \<open>\<open>s.includes(t)\<close>: \<open>t\<close> occurs in \<open>s\<close> as a contiguous run.\<close>

fun includes_str :: "string \<Rightarrow> string \<Rightarrow> bool" where
  "includes_str [] t = (t = [])"
| "includes_str (c # cs) t = (prefix t (c # cs) \<or> includes_str cs t)"

text \<open>\<open>xs.join(sep)\<close>\<close>

fun join :: "string \<Rightarrow> string list \<Rightarrow> string" where
  "join sep [] = []"
| "join sep [x] = x"
| "join sep (x # y # ys) = x @ sep @ join sep (y # ys)"

section \<open>Regular expressions\<close>

text \<open>
  The regular expressions of the source are values of \<open>re\<close>, and \<open>rmatch\<close> is the
  backtracking matcher of ECMAScript in continuation-passing style: an alternative tries
  its left side first, a greedy star tries another iteration before the continuation, a
  lazy star the continuation first, and an iteration that consumes nothing is rejected.
  A matcher state is the character before the current position (for \<open>\b\<close> and \<open>^\<close>),
  the rest of the input, and the text of capture group 1.
\<close>

datatype catom = Lit char | Space | NonSpace

datatype cset = One catom | Dot | OneOf "catom list" | NoneOf "catom list"

datatype re = Atom cset | Eps | Cat re re | Alt re re | Star re | LazyStar re
  | Group re | Bol | Eol | WordB

record flags =
  ignoreCase :: bool
  multiline :: bool

fun amatch :: "bool \<Rightarrow> catom \<Rightarrow> char \<Rightarrow> bool" where
  "amatch i (Lit c) x = (if i then toLowerChar c = toLowerChar x else c = x)"
| "amatch i Space x = isWhiteSpace x"
| "amatch i NonSpace x = (\<not> isWhiteSpace x)"

fun cmatch :: "bool \<Rightarrow> cset \<Rightarrow> char \<Rightarrow> bool" where
  "cmatch i (One a) x = amatch i a x"
| "cmatch i Dot x = (\<not> isLineTerminator x)"
| "cmatch i (OneOf as) x = list_ex (\<lambda>a. amatch i a x) as"
| "cmatch i (NoneOf as) x = (\<not> list_ex (\<lambda>a. amatch i a x) as)"

type_synonym mstate = "char option \<times> string \<times> string option"

definition isWordAt :: "char option \<Rightarrow> bool" where
  "isWordAt c = (case c of None \<Rightarrow> False | Some x \<Rightarrow> isWordChar x)"

fun rmatch :: "flags \<Rightarrow> re \<Rightarrow> mstate \<Rightarrow> (mstate \<Rightarrow> mstate option) \<Rightarrow> mstate option" where
  "rmatch fl (Atom cs) (p, r, c) k =
     (case r of [] \<Rightarrow> None
      | x # xs \<Rightarrow> if cmatch (ignoreCase fl) cs x then k (Some x, xs, c) else None)"
| "rmatch fl Eps (p, r, c) k = k (p, r, c)"
| "rmatch fl (Cat a b) (p, r, c) k = rmatch fl a (p, r, c) (\<lambda>y. rmatch fl b y k)"
| "rmatch fl (Alt a b) (p, r, c) k =
     (case rmatch fl a (p, r, c) k of Some z \<Rightarrow> Some z | None \<Rightarrow> rmatch fl b (p, r, c) k)"
| "rmatch fl (Star a) (p, r, c) k =
     (case rmatch fl a (p, r, c)
             (\<lambda>y. if length (fst (snd y)) < length r then rmatch fl (Star a) y k else None) of
        Some z \<Rightarrow> Some z
      | None \<Rightarrow> k (p, r, c))"
| "rmatch fl (LazyStar a) (p, r, c) k =
     (case k (p, r, c) of
        Some z \<Rightarrow> Some z
      | None \<Rightarrow> rmatch fl a (p, r, c)
             (\<lambda>y. if length (fst (snd y)) < length r then rmatch fl (LazyStar a) y k else None))"
| "rmatch fl (Group a) (p, r, c) k =
     rmatch fl a (p, r, c)
       (\<lambda>y. k (fst y, fst (snd y), Some (take (length r - length (fst (snd y))) r)))"
| "rmatch fl Bol (p, r, c) k =
     (if p = None \<or> (multiline fl \<and> (case p of Some x \<Rightarrow> isLineTerminator x | None \<Rightarrow> False))
      then k (p, r, c) else None)"
| "rmatch fl Eol (p, r, c) k =
     (if r = [] \<or> (multiline fl \<and> isLineTerminator (hd r)) then k (p, r, c) else None)"
| "rmatch fl WordB (p, r, c) k =
     (if isWordAt p \<noteq> isWordAt (case r of [] \<Rightarrow> None | x # _ \<Rightarrow> Some x)
      then k (p, r, c) else None)"

text \<open>Abbreviations of the concrete syntax: a literal string, \<open>r+\<close>, \<open>r?\<close>, a sequence.\<close>

definition Str :: "string \<Rightarrow> re" where
  "Str s = foldr (\<lambda>c r. Cat (Atom (One (Lit c))) r) s Eps"

definition Plus :: "re \<Rightarrow> re" where
  "Plus r = Cat r (Star r)"

definition Opt :: "re \<Rightarrow> re" where
  "Opt r = Alt r Eps"

definition reSeq :: "re list \<Rightarrow> re" where
  "reSeq rs = foldr Cat rs Eps"

definition AnyChar :: re where
  "AnyChar = Atom (OneOf [Space, NonSpace])"

definition Ws :: re where
  "Ws = Atom (One Space)"

text \<open>
  A match: the text before it, the matched text (\<open>m[0]\<close>), capture group 1 (\<open>m[1]\<close>),
  the character before the end of the match and the text after it.
\<close>

record rematch =
  m_before :: string
  m_0 :: string
  m_1 :: "string option"
  m_prev :: "char option"
  m_after :: string

text \<open>
  \<open>execFrom\<close> is \<open>RegExp.prototype.exec\<close> without the sticky flag: the leftmost
  position from the current one at which the matcher succeeds.
\<close>

fun execFrom :: "flags \<Rightarrow> re \<Rightarrow> char option \<Rightarrow> string \<Rightarrow> rematch option" where
  "execFrom fl re p [] =
     (case rmatch fl re (p, [], None) Some of
        Some (p', r', c) \<Rightarrow>
          Some \<lparr>m_before = [], m_0 = [], m_1 = c, m_prev = p', m_after = r'\<rparr>
      | None \<Rightarrow> None)"
| "execFrom fl re p (x # xs) =
     (case rmatch fl re (p, x # xs, None) Some of
        Some (p', r', c) \<Rightarrow>
          Some \<lparr>m_before = [], m_0 = take (length (x # xs) - length r') (x # xs), m_1 = c,
                m_prev = p', m_after = r'\<rparr>
      | None \<Rightarrow>
          (case execFrom fl re (Some x) xs of
             None \<Rightarrow> None
           | Some m \<Rightarrow> Some (m\<lparr>m_before := x # m_before m\<rparr>)))"

text \<open>\<open>re.test(s)\<close> and \<open>s.match(re)\<close> for a regular expression without the global flag.\<close>

definition re_test :: "flags \<Rightarrow> re \<Rightarrow> string \<Rightarrow> bool" where
  "re_test fl re s = (execFrom fl re None s \<noteq> None)"

definition re_match :: "flags \<Rightarrow> re \<Rightarrow> string \<Rightarrow> rematch option" where
  "re_match fl re s = execFrom fl re None s"

text \<open>
  The loop \<^verbatim>\<open>while ((m = re.exec(s))) { ... }\<close> over a global regular expression: all
  matches from left to right, each search starting where the previous match ended. On a
  match of the empty string the source's loop would not advance; the model ends the list
  there. Both expressions the source runs this way begin with the literal \<open><\<close> and match
  no empty string.
\<close>

function execAll :: "flags \<Rightarrow> re \<Rightarrow> char option \<Rightarrow> string \<Rightarrow> rematch list" where
  "execAll fl re p s =
     (case execFrom fl re p s of
        None \<Rightarrow> []
      | Some m \<Rightarrow>
          m # (if m_0 m \<noteq> [] \<and> length (m_after m) < length s
               then execAll fl re (m_prev m) (m_after m) else []))"
  by pat_completeness auto
termination
  by (relation "measure (\<lambda>(fl, re, p, s). length s)") auto

declare execAll.simps [simp del]

text \<open>
  \<open>s.replace(re, "")\<close> for a global regular expression: every match is removed; after a
  match of the empty string the search resumes one character further.
\<close>

function removeAll :: "flags \<Rightarrow> re \<Rightarrow> char option \<Rightarrow> string \<Rightarrow> string" where
  "removeAll fl re p s =
     (case execFrom fl re p s of
        None \<Rightarrow> s
      | Some m \<Rightarrow>
          if length (m_after m) < length s
          then m_before m @ removeAll fl re (m_prev m) (m_after m)
          else (case s of [] \<Rightarrow> [] | x # xs \<Rightarrow> x # removeAll fl re (Some x) xs))"
  by pat_completeness auto
termination
  by (relation "measure (\<lambda>(fl, re, p, s). length s)") auto

declare removeAll.simps [simp del]

subsection \<open>The regular expressions of the source\<close>

definition dquote :: char where "dquote = CHR 0x22"
definition squote :: char where "squote = CHR 0x27"

definition flags_i :: flags where
  "flags_i = \<lparr>ignoreCase = True, multiline = False\<rparr>"

definition flags_im :: flags where
  "flags_im = \<lparr>ignoreCase = True, multiline = True\<rparr>"

definition flags_none :: flags where
  "flags_none = \<lparr>ignoreCase = False, multiline = False\<rparr>"

definition Quote :: re where
  "Quote = Atom (OneOf [Lit dquote, Lit squote])"

definition NotQuote :: re where
  "NotQuote = Atom (NoneOf [Lit dquote, Lit squote])"

definition NotGt :: re where
  "NotGt = Atom (NoneOf [Lit (CHR ''>'')])"

text \<open>\<^verbatim>\<open>/^https?:\/\//i\<close>\<close>
definition re_scheme :: re where
  "re_scheme = reSeq [Bol, Str ''http'', Opt (Str ''s''), Str ''://'']"

text \<open>\<^verbatim>\<open>/<!--[\s\S]*?-->/g\<close>\<close>
definition re_comment :: re where
  "re_comment = reSeq [Str ''<!--'', LazyStar AnyChar, Str ''-->'']"

text \<open>\<^verbatim>\<open>/<script\b[\s\S]*?<\/script>/gi\<close>\<close>
definition re_script :: re where
  "re_script = reSeq [Str ''<script'', WordB, LazyStar AnyChar, Str ''</script>'']"

text \<open>\<^verbatim>\<open>/<style\b[\s\S]*?<\/style>/gi\<close>\<close>
definition re_style :: re where
  "re_style = reSeq [Str ''<style'', WordB, LazyStar AnyChar, Str ''</style>'']"

text \<open>\<^verbatim>\<open>/<a\b[^>]*?\bhref\s*=\s*["']([^"']+)["'][^>]*>/gi\<close>\<close>
definition re_anchor :: re where
  "re_anchor = reSeq [Str ''<a'', WordB, LazyStar NotGt, WordB, Str ''href'', Star Ws,
     Str ''='', Star Ws, Quote, Group (Plus NotQuote), Quote, Star NotGt, Str ''>'']"

text \<open>\<^verbatim>\<open>/\.(pdf|jpg|jpeg|png|gif|webp|svg|zip)$/i\<close>\<close>
definition re_nonpage :: re where
  "re_nonpage = reSeq [Str ''.'',
     Group (Alt (Str ''pdf'') (Alt (Str ''jpg'') (Alt (Str ''jpeg'') (Alt (Str ''png'')
       (Alt (Str ''gif'') (Alt (Str ''webp'') (Alt (Str ''svg'') (Str ''zip'')))))))), Eol]"

text \<open>\<^verbatim>\<open>/<loc>\s*([^<\s]+)\s*<\/loc>/gi\<close>\<close>
definition re_loc :: re where
  "re_loc = reSeq [Str ''<loc>'', Star Ws, Group (Plus (Atom (NoneOf [Lit (CHR ''<''), Space]))),
     Star Ws, Str ''</loc>'']"

text \<open>\<^verbatim>\<open>/disallow:\s*\/\s*$/im\<close>\<close>
definition re_disallow :: re where
  "re_disallow = reSeq [Str ''disallow:'', Star Ws, Str ''/'', Star Ws, Eol]"

text \<open>\<^verbatim>\<open>/user-agent:\s*\*/im\<close>\<close>
definition re_useragent :: re where
  "re_useragent = reSeq [Str ''user-agent:'', Star Ws, Str ''*'']"

text \<open>\<^verbatim>\<open>/User-agent:\s*\*[\s\S]*?Disallow:\s*\/.*/i\<close>\<close>
definition re_robots_snippet :: re where
  "re_robots_snippet = reSeq [Str ''User-agent:'', Star Ws, Str ''*'', LazyStar AnyChar,
     Str ''Disallow:'', Star Ws, Str ''/'', Star (Atom Dot)]"

text \<open>\<^verbatim>\<open>/<meta[^>]+name=["']robots["'][^>]*>/i\<close>\<close>
definition re_meta_robots :: re where
  "re_meta_robots = reSeq [Str ''<meta'', Plus NotGt, Str ''name='', Quote, Str ''robots'',
     Quote, Star NotGt, Str ''>'']"

text \<open>\<^verbatim>\<open>/<link[^>]+rel=["']canonical["'][^>]+>/i\<close>\<close>
definition re_canonical :: re where
  "re_canonical = reSeq [Str ''<link'', Plus NotGt, Str ''rel='', Quote, Str ''canonical'',
     Quote, Plus NotGt, Str ''>'']"

text \<open>\<^verbatim>\<open>/href=["']([^"']+)["']/i\<close>\<close>
definition re_href :: re where
  "re_href = reSeq [Str ''href='', Quote, Group (Plus NotQuote), Quote]"

text \<open>\<^verbatim>\<open>/<title>[\s\S]*?<\/title>/i\<close>\<close>
definition re_has_title :: re where
  "re_has_title = reSeq [Str ''<title>'', LazyStar AnyChar, Str ''</title>'']"

text \<open>\<^verbatim>\<open>/<title>\s*([\s\S]*?)\s*<\/title>/i\<close>\<close>
definition re_title :: re where
  "re_title = reSeq [Str ''<title>'', Star Ws, Group (LazyStar AnyChar), Star Ws,
     Str ''</title>'']"

section \<open>URLs and the platform\<close>

text \<open>
  A URL object is the URL record of the WHATWG URL standard: scheme, credentials, host
  (absent for a URL without authority), port (its decimal digits, empty for the default
  port), the serialised path, and the query and fragment (absent, or their text without
  the leading \<open>?\<close> or \<open>#\<close>). The getters of the \<open>URL\<close> class are functions of it.
\<close>

record URL =
  scheme :: string
  username :: string
  password :: string
  host :: "string option"
  port :: string
  path :: string
  query :: "string option"
  fragment :: "string option"

definition protocol :: "URL \<Rightarrow> string" where
  "protocol u = scheme u @ '':''"

definition hostname :: "URL \<Rightarrow> string" where
  "hostname u = (case host u of None \<Rightarrow> [] | Some h \<Rightarrow> h)"

definition pathname :: "URL \<Rightarrow> string" where
  "pathname u = path u"

text \<open>\<open>url.toString()\<close>, the URL serialiser.\<close>

definition href :: "URL \<Rightarrow> string" where
  "href u =
     scheme u @ '':'' @
     (case host u of
        None \<Rightarrow> []
      | Some h \<Rightarrow>
          ''//'' @
          (if username u \<noteq> [] \<or> password u \<noteq> []
           then username u @ (if password u \<noteq> [] then '':'' @ password u else []) @ ''@''
           else []) @
          h @ (if port u = [] then [] else '':'' @ port u)) @
     path u @
     (case query u of None \<Rightarrow> [] | Some q \<Rightarrow> ''?'' @ q) @
     (case fragment u of None \<Rightarrow> [] | Some f \<Rightarrow> ''#'' @ f)"

text \<open>
  \<open>url.origin\<close>: the serialised (scheme, host, port) for the schemes with a tuple origin,
  \<open>null\<close> otherwise (\<open>blob:\<close> URLs are not modelled).
\<close>

definition origin :: "URL \<Rightarrow> string" where
  "origin u =
     (if scheme u \<in> set [''http'', ''https'', ''ftp'', ''ws'', ''wss'']
      then scheme u @ ''://'' @ hostname u @ (if port u = [] then [] else '':'' @ port u)
      else ''null'')"

text \<open>A response of \<open>fetch\<close>; \<open>res_text\<close> is absent when reading the body throws.\<close>

record Response =
  res_url :: string
  res_status :: nat
  res_headers :: "(string \<times> string) list"
  res_text :: "string option"

text \<open>
  What the handler takes from its platform: \<open>fetch\<close> (absent result: the promise rejects,
  on a network error or when the 12-second timer aborts the request; redirects are
  followed inside it), the URL parser \<open>new URL(input, base)\<close> (absent result: it throws),
  \<open>String.prototype.localeCompare\<close> and \<open>new Date().toISOString()\<close>.
\<close>

record Platform =
  fetch :: "string \<Rightarrow> Response option"
  parseURL :: "string \<Rightarrow> string option \<Rightarrow> URL option"
  localeCompare :: "string \<Rightarrow> string \<Rightarrow> int"
  nowISO :: string

section \<open>Data model\<close>

datatype RiskLevel = RED | AMBER | GREEN

datatype Severity = P0 | P1 | P2 | P3

datatype Trajectory = UP | STABLE | DOWN

datatype SecurityFlag =
  PROMPT_INJECTION_DETECTED | SCHEMA_MIMICRY_DETECTED | INSTRUCTION_IN_HTML_DETECTED

text \<open>
  \<open>ArtifactHtml\<close> and \<open>ArtifactText\<close> share their first four fields; \<open>headers\<close> is the
  object built by \<open>lowerHeaders\<close>, as the list of its properties.
\<close>

record Artifact =
  url :: string
  final_url :: string
  status :: nat
  headers :: "(string \<times> string) list"

record ArtifactHtml = Artifact +
  html :: "string option"

record ArtifactText = Artifact +
  text_body :: "string option"

record Baseline =
  bl_risk_level :: RiskLevel
  bl_scan_date :: string
  bl_p0 :: nat
  bl_p1 :: nat
  bl_p2 :: nat
  bl_p3 :: nat

record Artifacts =
  homepage :: "ArtifactHtml option"
  robots_txt :: "ArtifactText option"
  sitemap_xml :: "ArtifactText option"
  extra_pages :: "ArtifactHtml list option"

record ScanInput =
  domain :: string
  scan_date :: string
  baseline :: "Baseline option"
  artifacts :: Artifacts
  constraints :: "string list"

text \<open>The value type of the \<open>rootCauses\<close> map.\<close>

record Finding =
  severity :: Severity
  category :: string
  finding :: string
  evidenceUrl :: string
  snippet :: string
  why :: string
  verify :: string

record Counts =
  p0 :: nat
  p1 :: nat
  p2 :: nat
  p3 :: nat

record Proof =
  pf_severity :: Severity
  pf_category :: string
  pf_finding :: string
  evidence_url :: string
  evidence_snippet :: string
  why_it_suppresses :: string
  how_to_verify :: string

text \<open>The object \<open>analyzeArtifacts\<close> returns.\<close>

record Analysis =
  risk_level :: RiskLevel
  trajectory :: "Trajectory option"
  counts :: Counts
  interpretation_text :: string
  a_proof :: Proof

record ScanMetadata =
  md_domain :: string
  md_scan_date :: string
  inputs_used :: "string list"
  inputs_missing :: "string list"
  pages_analyzed :: nat

record Cta =
  primary_label :: string
  primary_description :: string
  secondary_label :: string
  secondary_description :: string

record Output =
  scan_metadata :: ScanMetadata
  result_risk_level :: RiskLevel
  result_trajectory :: "Trajectory option"
  result_counts :: Counts
  result_interpretation :: string
  o_proof :: Proof
  module_readiness_hint :: string
  confidence_note :: string
  security_flags :: "SecurityFlag list"
  cta :: Cta

datatype ErrorType = INSUFFICIENT_DATA | FETCH_FAILED | INVALID_URL

record ErrorOutput =
  error_type :: ErrorType
  error_message :: string

datatype Body = ErrorBody ErrorOutput | ReportBody Output

text \<open>What \<open>json(statusCode, bodyObj)\<close> returns, the body before \<open>JSON.stringify\<close>.\<close>

record HttpResult =
  statusCode :: nat
  content_type :: string
  body :: Body

definition json :: "nat \<Rightarrow> Body \<Rightarrow> HttpResult" where
  "json code bodyObj =
     \<lparr>statusCode = code, content_type = ''application/json; charset=utf-8'', body = bodyObj\<rparr>"

text \<open>
  The request: the \<open>url\<close> query parameter, and the body after \<open>safeParseJsonBody\<close>
  (absent when there is no body or it is not JSON) with its \<open>url\<close> and \<open>baseline\<close>.
\<close>

record JsonBody =
  body_url :: "string option"
  body_baseline :: "Baseline option"

record Event =
  queryUrl :: "string option"
  parsedBody :: "JsonBody option"

text \<open>An element of the array \<open>scored\<close> of \<open>pickPriorityNavPages\<close>.\<close>

record Scored =
  sc_u :: URL
  sc_score :: nat
  sc_len :: nat
  sc_path :: string

text \<open>
  The local variables of the handler when it has assembled \<open>scanInput\<close>: the base URL,
  the URLs it fetched after the homepage, and the scan input.
\<close>

record Scan =
  base_url :: URL
  robotsUrl :: URL
  sitemapUrl :: URL
  extraUrls :: "URL list"
  scanInput :: ScanInput

definition STD_CONFIDENCE_NOTE :: string where
  "STD_CONFIDENCE_NOTE =
     ''Based on public signals only. Additional suppressors may exist. Full diagnostic with prioritized fixes requires a Growth Blocker Audit.''"

definition STD_CTA_PRIMARY_DESC :: string where
  "STD_CTA_PRIMARY_DESC =
     ''Complete P0-P3 backlog with evidence, source attribution, priority roadmap, and module readiness assessment.''"

definition STD_CTA_SECONDARY_DESC :: string where
  "STD_CTA_SECONDARY_DESC = ''Ongoing measurement system that makes your marketing provable.''"

section \<open>Truncation\<close>

text \<open>
  \<^verbatim>\<open>function truncate(s, maxChars) { if (s.length <= maxChars) return s;
  return s.slice(0, maxChars) + "..."; }\<close>
\<close>

definition truncate :: "string \<Rightarrow> nat \<Rightarrow> string" where
  "truncate s maxChars = (if length s \<le> maxChars then s else take maxChars s @ ''...'')"

definition MAX_HTML_CHARS :: nat where "MAX_HTML_CHARS = 120000"
definition MAX_TEXT_CHARS :: nat where "MAX_TEXT_CHARS = 120000"

section \<open>URL normalisation and the SSRF guard\<close>

text \<open>
  \<open>normalizeToOrigin\<close>: the setters \<open>pathname = "/"\<close>, \<open>search = ""\<close> and \<open>hash = ""\<close>
  run on an http(s) URL, where they set the path to \<open>/\<close> and remove query and fragment.
\<close>

definition normalizeToOrigin :: "Platform \<Rightarrow> string \<Rightarrow> URL option" where
  "normalizeToOrigin P inputUrl =
     (let u0 = trim inputUrl;
          u = (if \<not> re_test flags_i re_scheme u0 then ''https://'' @ u0 else u0)
      in case parseURL P u None of
           None \<Rightarrow> None
         | Some url0 \<Rightarrow>
             if protocol url0 \<noteq> ''http:'' \<and> protocol url0 \<noteq> ''https:'' then None
             else Some (url0\<lparr>path := ''/'', query := None, fragment := None\<rparr>))"

definition basicSsrfGuards :: "URL \<Rightarrow> string option" where
  "basicSsrfGuards u =
     (if username u \<noteq> [] \<or> password u \<noteq> []
      then Some ''INVALID_URL: credentials in URL not allowed''
      else let h = toLowerCase (hostname u)
           in if h \<in> set [''localhost'', ''127.0.0.1'', ''0.0.0.0'', ''::1'']
              then Some ''INVALID_URL: localhost is not allowed''
              else if endsWith h ''.local'' \<or> endsWith h ''.internal''
              then Some ''INVALID_URL: internal hostnames are not allowed''
              else None)"

section \<open>Fetching\<close>

text \<open>
  \<open>lowerHeaders\<close>: \<open>out[k.toLowerCase()] = v\<close> for each header in turn; a later header
  of the same lowered name replaces the value.
\<close>

definition lowerHeaders :: "(string \<times> string) list \<Rightarrow> (string \<times> string) list" where
  "lowerHeaders h = fold (\<lambda>(k, v) out. AList.update (toLowerCase k) v out) h []"

text \<open>\<open>headers[name] || ""\<close>\<close>

definition header_or_empty :: "(string \<times> string) list \<Rightarrow> string \<Rightarrow> string" where
  "header_or_empty hs name = (case map_of hs name of None \<Rightarrow> [] | Some v \<Rightarrow> v)"

definition stripScriptsStylesComments :: "string \<Rightarrow> string" where
  "stripScriptsStylesComments h =
     removeAll flags_i re_style None
       (removeAll flags_i re_script None
         (removeAll flags_none re_comment None h))"

definition isProbablyHtml :: "string \<Rightarrow> bool" where
  "isProbablyHtml contentType =
     (if contentType = [] then False
      else includes_str contentType ''text/html''
         \<or> includes_str contentType ''application/xhtml+xml'')"

definition status_ok :: "nat \<Rightarrow> bool" where
  "status_ok st = (200 \<le> st \<and> st < 400)"

text \<open>
  \<open>fetchHtmlArtifact\<close> and \<open>fetchTextArtifact\<close> return the artifact and the optional
  constraint. The \<open>catch\<close> branch is taken when \<open>fetch\<close> rejects and when \<open>res.text()\<close>,
  called only for a status from 200 to 399, throws.
\<close>

definition failedArtifact :: "string \<Rightarrow> Artifact" where
  "failedArtifact u = \<lparr>url = u, final_url = u, status = 0, headers = []\<rparr>"

definition fetchHtmlArtifact :: "Platform \<Rightarrow> URL \<Rightarrow> ArtifactHtml \<times> string option" where
  "fetchHtmlArtifact P u =
     (case fetch P (href u) of
        None \<Rightarrow> (Artifact.extend (failedArtifact (href u)) (ArtifactHtml.fields None),
                 Some ''fetch_failed'')
      | Some res \<Rightarrow>
          let finalUrl = (if res_url res = [] then href u else res_url res);
              hs = lowerHeaders (res_headers res);
              st = res_status res;
              contentType = header_or_empty hs ''content-type''
          in if status_ok st \<and> res_text res = None
             then (Artifact.extend (failedArtifact (href u)) (ArtifactHtml.fields None),
                   Some ''fetch_failed'')
             else
               let h = (if status_ok st
                        then map_option (\<lambda>raw. truncate (stripScriptsStylesComments raw)
                                                  MAX_HTML_CHARS) (res_text res)
                        else None)
               in if \<not> isProbablyHtml contentType
                  then (\<lparr>url = href u, final_url = finalUrl, status = st, headers = hs,
                          html = None\<rparr>, Some ''non_html_homepage_or_page'')
                  else (\<lparr>url = href u, final_url = finalUrl, status = st, headers = hs,
                          html = h\<rparr>, None))"

definition fetchTextArtifact :: "Platform \<Rightarrow> URL \<Rightarrow> ArtifactText \<times> string option" where
  "fetchTextArtifact P u =
     (case fetch P (href u) of
        None \<Rightarrow> (Artifact.extend (failedArtifact (href u)) (ArtifactText.fields None),
                 Some ''fetch_failed'')
      | Some res \<Rightarrow>
          let finalUrl = (if res_url res = [] then href u else res_url res);
              hs = lowerHeaders (res_headers res);
              st = res_status res
          in if status_ok st \<and> res_text res = None
             then (Artifact.extend (failedArtifact (href u)) (ArtifactText.fields None),
                   Some ''fetch_failed'')
             else (\<lparr>url = href u, final_url = finalUrl, status = st, headers = hs,
                     text_body = (if status_ok st
                                  then map_option (\<lambda>raw. truncate raw MAX_TEXT_CHARS)
                                         (res_text res)
                                  else None)\<rparr>, None))"

section \<open>Link extraction and page selection\<close>

definition makeAbsoluteUrl :: "Platform \<Rightarrow> string \<Rightarrow> URL \<Rightarrow> URL option" where
  "makeAbsoluteUrl P candidate base =
     (case parseURL P candidate (Some (href base)) of
        None \<Rightarrow> None
      | Some u \<Rightarrow>
          if protocol u \<noteq> ''http:'' \<and> protocol u \<noteq> ''https:'' then None
          else Some (u\<lparr>fragment := None\<rparr>))"

definition sameOrigin :: "URL \<Rightarrow> URL \<Rightarrow> bool" where
  "sameOrigin a b = (origin a = origin b)"

text \<open>
  The de-duplication loops of the source: a set \<open>seen\<close> of the \<open>toString()\<close> keys met so
  far, and the URLs whose key was new, in their order.
\<close>

fun dedupeUrls :: "string list \<Rightarrow> URL list \<Rightarrow> URL list" where
  "dedupeUrls seen [] = []"
| "dedupeUrls seen (u # us) =
     (if href u \<in> set seen then dedupeUrls seen us
      else u # dedupeUrls (href u # seen) us)"

text \<open>The body of the \<open>exec\<close> loop of \<open>extractHomepageLinks\<close>, for one match.\<close>

definition homepageLinkOf :: "Platform \<Rightarrow> URL \<Rightarrow> rematch \<Rightarrow> URL option" where
  "homepageLinkOf P base m =
     (case m_1 m of
        None \<Rightarrow> None
      | Some g \<Rightarrow>
          let h = trim g
          in if h = [] then None
             else if startsWith h ''mailto:'' \<or> startsWith h ''tel:''
                     \<or> startsWith h ''javascript:'' then None
             else (case makeAbsoluteUrl P h base of
                     None \<Rightarrow> None
                   | Some absU \<Rightarrow>
                       if \<not> sameOrigin absU base then None
                       else if re_test flags_i re_nonpage (toLowerCase (pathname absU)) then None
                       else Some absU))"

definition extractHomepageLinks :: "Platform \<Rightarrow> string \<Rightarrow> URL \<Rightarrow> URL list" where
  "extractHomepageLinks P h base =
     dedupeUrls [] (List.map_filter (homepageLinkOf P base) (execAll flags_i re_anchor None h))"

definition priorityKeywords :: "string list" where
  "priorityKeywords =
     [''contact'', ''about'', ''services'', ''service'', ''pricing'', ''book'', ''audit'',
      ''diagnostic'']"

text \<open>The scoring loop: the index of the first keyword the path includes, 999 if none.\<close>

fun keywordScore :: "string \<Rightarrow> nat \<Rightarrow> string list \<Rightarrow> nat" where
  "keywordScore pth i [] = 999"
| "keywordScore pth i (k # ks) = (if includes_str pth k then i else keywordScore pth (Suc i) ks)"

definition scoreLink :: "URL \<Rightarrow> Scored" where
  "scoreLink u =
     (let pth = toLowerCase (pathname u)
      in \<lparr>sc_u = u, sc_score = keywordScore pth 0 priorityKeywords, sc_len = length pth,
           sc_path = pth\<rparr>)"

text \<open>
  \<open>Array.prototype.sort(compare)\<close> is a stable sort; the model is the stable insertion
  sort, which puts \<open>x\<close> before the first \<open>y\<close> with \<open>compare(x, y) \<le> 0\<close>. (For a comparator
  that is not a consistent order JavaScript leaves the result to the implementation.)
\<close>

fun insertBy :: "('a \<Rightarrow> 'a \<Rightarrow> int) \<Rightarrow> 'a \<Rightarrow> 'a list \<Rightarrow> 'a list" where
  "insertBy cmp x [] = [x]"
| "insertBy cmp x (y # ys) = (if cmp x y \<le> 0 then x # y # ys else y # insertBy cmp x ys)"

definition sortBy :: "('a \<Rightarrow> 'a \<Rightarrow> int) \<Rightarrow> 'a list \<Rightarrow> 'a list" where
  "sortBy cmp xs = foldr (insertBy cmp) xs []"

definition compareScored :: "Platform \<Rightarrow> Scored \<Rightarrow> Scored \<Rightarrow> int" where
  "compareScored P a b =
     (if sc_score a \<noteq> sc_score b then int (sc_score a) - int (sc_score b)
      else if sc_len a \<noteq> sc_len b then int (sc_len a) - int (sc_len b)
      else localeCompare P (sc_path a) (sc_path b))"

text \<open>
  The picking loop of \<open>pickPriorityNavPages\<close>, with its \<open>continue\<close> and \<open>break\<close>: \<open>seen\<close>
  and \<open>picked\<close> are the loop's variables.
\<close>

fun pickLoop :: "nat \<Rightarrow> string list \<Rightarrow> URL list \<Rightarrow> Scored list \<Rightarrow> URL list" where
  "pickLoop limit seen picked [] = picked"
| "pickLoop limit seen picked (s # ss) =
     (if href (sc_u s) \<in> set seen then pickLoop limit seen picked ss
      else if pathname (sc_u s) = ''/'' then pickLoop limit (href (sc_u s) # seen) picked ss
      else if length (picked @ [sc_u s]) \<ge> limit then picked @ [sc_u s]
      else pickLoop limit (href (sc_u s) # seen) (picked @ [sc_u s]) ss)"

definition pickPriorityNavPages :: "Platform \<Rightarrow> URL list \<Rightarrow> nat \<Rightarrow> URL list" where
  "pickPriorityNavPages P links limit =
     pickLoop limit [] [] (sortBy (compareScored P) (map scoreLink links))"

text \<open>The body of the \<open>exec\<close> loop of \<open>extractSitemapLocs\<close>, for one match.\<close>

definition sitemapLocOf :: "Platform \<Rightarrow> URL \<Rightarrow> rematch \<Rightarrow> URL option" where
  "sitemapLocOf P base m =
     (case m_1 m of
        None \<Rightarrow> None
      | Some g \<Rightarrow>
          let raw = trim g
          in if raw = [] then None
             else (case makeAbsoluteUrl P raw base of
                     None \<Rightarrow> None
                   | Some absU \<Rightarrow> if \<not> sameOrigin absU base then None else Some absU))"

definition extractSitemapLocs :: "Platform \<Rightarrow> string \<Rightarrow> URL \<Rightarrow> URL list" where
  "extractSitemapLocs P xmlText base =
     dedupeUrls [] (List.map_filter (sitemapLocOf P base) (execAll flags_i re_loc None xmlText))"

section \<open>Security flags\<close>

text \<open>\<open>Array.from(new Set(xs))\<close>: the first occurrence of each element, in order.\<close>

definition uniq :: "'a list \<Rightarrow> 'a list" where
  "uniq xs = rev (remdups (rev xs))"

definition detectSecurityFlags :: "string list \<Rightarrow> SecurityFlag list" where
  \<open>detectSecurityFlags contents =
     (let joined = toLowerCase (join [CHR 0x0A] contents);
          hasPromptInjection =
            (includes_str joined ''ignore previous instructions'' \<or>
             includes_str joined ''you are now'' \<or>
             includes_str joined ''system:'' \<or>
             includes_str joined ''assistant:'' \<or>
             includes_str joined ''human:'');
          hasSchemaMimicry =
            (includes_str joined ''"schema_version"'' \<or>
             includes_str joined ''output schema'' \<or>
             includes_str joined ''strict json'' \<or>
             includes_str joined ''error schema'');
          hasInstructionBlocks =
            (includes_str joined ''## system prompt'' \<or>
             includes_str joined ''critical security directive'' \<or>
             includes_str joined ''analysis rules'')
      in uniq ((if hasPromptInjection then [PROMPT_INJECTION_DETECTED] else []) @
               (if hasSchemaMimicry then [SCHEMA_MIMICRY_DETECTED] else []) @
               (if hasInstructionBlocks then [INSTRUCTION_IN_HTML_DETECTED] else [])))\<close>

section \<open>The analyzer\<close>

text \<open>
  \<open>rootCauses\<close> is a \<open>Map\<close>: its entries in insertion order. \<open>add\<close> is the source's
  helper: a key already present keeps its first entry.
\<close>

type_synonym RootCauses = "(string \<times> Finding) list"

definition add :: "string \<Rightarrow> Finding \<Rightarrow> RootCauses \<Rightarrow> RootCauses" where
  "add key data rootCauses =
     (if key \<in> set (map fst rootCauses) then rootCauses else rootCauses @ [(key, data)])"

text \<open>\<open>s.match(re)?.[0] || dflt\<close>\<close>

definition match0_or :: "flags \<Rightarrow> re \<Rightarrow> string \<Rightarrow> string \<Rightarrow> string" where
  "match0_or fl re s dflt =
     (case re_match fl re s of None \<Rightarrow> dflt | Some m \<Rightarrow> if m_0 m = [] then dflt else m_0 m)"

text \<open>\<open>s.match(re)?.[1]\<close>, absent also when it is the empty string (\<open>|| null\<close>, \<open>!title\<close>).\<close>

definition match1_nonempty :: "flags \<Rightarrow> re \<Rightarrow> string \<Rightarrow> string option" where
  "match1_nonempty fl re s =
     (case re_match fl re s of
        None \<Rightarrow> None
      | Some m \<Rightarrow> (case m_1 m of None \<Rightarrow> None | Some g \<Rightarrow> if g = [] then None else Some g))"

text \<open>P0: robots disallow all.\<close>

definition robotsRule :: "ArtifactText option \<Rightarrow> RootCauses \<Rightarrow> RootCauses" where
  "robotsRule robots rc =
     (case robots of
        None \<Rightarrow> rc
      | Some r \<Rightarrow>
          (case text_body r of
             None \<Rightarrow> rc
           | Some t \<Rightarrow>
               if t \<noteq> [] \<and> re_test flags_im re_disallow t \<and> re_test flags_im re_useragent t
               then add ''ROBOTS_DISALLOW_ALL''
                      \<lparr>severity = P0,
                       category = ''Indexation Kill Switch'',
                       finding = ''robots.txt appears to disallow all crawling'',
                       evidenceUrl = ''robots.txt'',
                       snippet = truncate (match0_or flags_i re_robots_snippet t
                                             ''User-agent: * / Disallow: /'') 200,
                       why = ''If bots can't crawl, pages won't be indexed or refreshed reliably.'',
                       verify = ''Open /robots.txt and confirm User-agent:* includes Disallow:/''\<rparr>
                      rc
               else rc))"

text \<open>\<open>p.final_url || p.url\<close> and \<open>p.html || ""\<close>\<close>

definition pageUrl :: "ArtifactHtml \<Rightarrow> string" where
  "pageUrl p = (if final_url p = [] then url p else final_url p)"

definition pageHtml :: "ArtifactHtml \<Rightarrow> string" where
  "pageHtml p = (case html p of None \<Rightarrow> [] | Some h \<Rightarrow> h)"

text \<open>P0: X-Robots-Tag noindex.\<close>

definition xRobotsRule :: "ArtifactHtml \<Rightarrow> RootCauses \<Rightarrow> RootCauses" where
  "xRobotsRule p rc =
     (let xRobots = toLowerCase (header_or_empty (headers p) ''x-robots-tag'')
      in if includes_str xRobots ''noindex''
         then add ''X_ROBOTS_NOINDEX''
                \<lparr>severity = P0,
                 category = ''Indexation Kill Switch'',
                 finding = ''x-robots-tag noindex present'',
                 evidenceUrl = pageUrl p,
                 snippet = truncate (''x-robots-tag: '' @ header_or_empty (headers p) ''x-robots-tag'')
                             200,
                 why = ''noindex prevents the page from being indexed.'',
                 verify = ''Check response headers for x-robots-tag containing noindex.''\<rparr>
                rc
         else rc)"

text \<open>P0: meta robots noindex.\<close>

definition metaRobotsTest :: "string \<Rightarrow> bool" where
  \<open>metaRobotsTest h =
     (includes_str (toLowerCase h) ''name="robots"'' \<and> includes_str (toLowerCase h) ''noindex'')\<close>

definition metaRobotsRule :: "ArtifactHtml \<Rightarrow> RootCauses \<Rightarrow> RootCauses" where
  "metaRobotsRule p rc =
     (if metaRobotsTest (pageHtml p)
      then add ''META_ROBOTS_NOINDEX''
             \<lparr>severity = P0,
              category = ''Indexation Kill Switch'',
              finding = ''meta robots noindex present'',
              evidenceUrl = pageUrl p,
              snippet = truncate (match0_or flags_i re_meta_robots (pageHtml p)
                                    ''<meta name='' @ [squote] @ ''robots'' @ [squote] @ '' ...>'')
                          200,
              why = ''noindex prevents indexing for the page.'',
              verify = ''View page source and locate meta name='' @ [squote] @ ''robots''
                         @ [squote] @ '' containing noindex.''\<rparr>
             rc
      else rc)"

text \<open>
  Canonical off-domain (the source's comment says P1, its finding says P0). The \<open>try\<close>
  block holds both \<open>new URL(canonHref, url)\<close> and \<open>new URL(url)\<close>; when either throws the
  rule adds nothing.
\<close>

definition canonicalRule :: "Platform \<Rightarrow> ArtifactHtml \<Rightarrow> RootCauses \<Rightarrow> RootCauses" where
  "canonicalRule P p rc =
     (case re_match flags_i re_canonical (pageHtml p) of
        None \<Rightarrow> rc
      | Some m \<Rightarrow>
          if m_0 m = [] then rc
          else (case match1_nonempty flags_i re_href (m_0 m) of
                  None \<Rightarrow> rc
                | Some canonHref \<Rightarrow>
                    (case parseURL P canonHref (Some (pageUrl p)) of
                       None \<Rightarrow> rc
                     | Some canonUrl \<Rightarrow>
                         (case parseURL P (pageUrl p) None of
                            None \<Rightarrow> rc
                          | Some pgUrl \<Rightarrow>
                              if hostname canonUrl \<noteq> [] \<and> hostname pgUrl \<noteq> []
                                 \<and> hostname canonUrl \<noteq> hostname pgUrl
                              then add ''CANONICAL_OFFDOMAIN''
                                     \<lparr>severity = P0,
                                      category = ''Indexation Kill Switch'',
                                      finding = ''canonical points to a different domain'',
                                      evidenceUrl = pageUrl p,
                                      snippet = truncate (m_0 m) 200,
                                      why = ''Off-domain canonicals can transfer indexing signals away from your site.'',
                                      verify = ''View source and confirm canonical hostname matches the page hostname.''\<rparr>
                                     rc
                              else rc))))"

text \<open>P2: missing title.\<close>

definition missingTitleRule :: "ArtifactHtml \<Rightarrow> RootCauses \<Rightarrow> RootCauses" where
  "missingTitleRule p rc =
     (if \<not> re_test flags_i re_has_title (pageHtml p)
      then add ''MISSING_TITLE''
             \<lparr>severity = P2,
              category = ''Moderate Drag'',
              finding = ''missing <title> tag'',
              evidenceUrl = pageUrl p,
              snippet = ''No <title> found in HTML.'',
              why = ''Titles are a primary relevance + CTR signal; missing titles reduce clarity.'',
              verify = ''View source and confirm whether a <title> exists in <head>.''\<rparr>
             rc
      else rc)"

text \<open>The body of the per-page loop.\<close>

definition pageRules :: "Platform \<Rightarrow> ArtifactHtml \<Rightarrow> RootCauses \<Rightarrow> RootCauses" where
  "pageRules P p rc =
     missingTitleRule p (canonicalRule P p (metaRobotsRule p (xRobotsRule p rc)))"

text \<open>
  P2: title duplication. \<open>titles\<close> is a \<open>Map\<close> from a title to the URLs of its pages, in
  insertion order; \<open>titleStep\<close> is the body of the loop that fills it.
\<close>

definition titleStep :: "ArtifactHtml \<Rightarrow> (string \<times> string list) list \<Rightarrow> (string \<times> string list) list"
  where
  "titleStep p titles =
     (case html p of
        None \<Rightarrow> titles
      | Some h \<Rightarrow>
          if h = [] then titles
          else (case re_match flags_i re_title h of
                  None \<Rightarrow> titles
                | Some m \<Rightarrow>
                    (case m_1 m of
                       None \<Rightarrow> titles
                     | Some g \<Rightarrow>
                         let title = trim g
                         in if title = [] then titles
                            else AList.update title
                                   ((case map_of titles title of None \<Rightarrow> [] | Some l \<Rightarrow> l)
                                      @ [pageUrl p])
                                   titles)))"

definition dupTitlesRule :: "(string \<times> string list) list \<Rightarrow> RootCauses \<Rightarrow> RootCauses" where
  "dupTitlesRule titles rc =
     (case find (\<lambda>(title, urls). length urls \<ge> 2) titles of
        None \<Rightarrow> rc
      | Some (title, urls) \<Rightarrow>
          add ''DUP_TITLES''
            \<lparr>severity = P2,
             category = ''Moderate Drag'',
             finding = ''duplicate <title> across multiple pages'',
             evidenceUrl = hd urls,
             snippet = truncate (''<title>'' @ title @ ''</title>'') 200,
             why = ''Duplicate titles dilute intent targeting and reduce snippet differentiation.'',
             verify = ''Check page sources and compare <title> across affected URLs.''\<rparr>
            rc)"

text \<open>\<open>[homepage, ...(input.artifacts.extra_pages || [])].filter(Boolean)\<close>\<close>

definition pagesOf :: "ScanInput \<Rightarrow> ArtifactHtml list" where
  "pagesOf input =
     (case homepage (artifacts input) of None \<Rightarrow> [] | Some h \<Rightarrow> [h]) @
     (case extra_pages (artifacts input) of None \<Rightarrow> [] | Some es \<Rightarrow> es)"

text \<open>The \<open>rootCauses\<close> map when all rules have run (lines 494 to 615 of the analyzer).\<close>

definition rootCausesOf :: "Platform \<Rightarrow> ScanInput \<Rightarrow> RootCauses" where
  "rootCausesOf P input =
     dupTitlesRule (fold titleStep (pagesOf input) [])
       (fold (pageRules P) (pagesOf input)
          (robotsRule (robots_txt (artifacts input)) []))"

text \<open>Count severities.\<close>

definition countStep :: "Finding \<Rightarrow> Counts \<Rightarrow> Counts" where
  "countStep v c =
     (if severity v = P0 then c\<lparr>p0 := p0 c + 1\<rparr>
      else if severity v = P1 then c\<lparr>p1 := p1 c + 1\<rparr>
      else if severity v = P2 then c\<lparr>p2 := p2 c + 1\<rparr>
      else c\<lparr>p3 := p3 c + 1\<rparr>)"

definition countSeverities :: "RootCauses \<Rightarrow> Counts" where
  "countSeverities rc = fold countStep (map snd rc) \<lparr>p0 = 0, p1 = 0, p2 = 0, p3 = 0\<rparr>"

text \<open>Risk level thresholds.\<close>

definition riskOf :: "Counts \<Rightarrow> RiskLevel" where
  "riskOf c =
     (if p0 c \<ge> 1 \<or> p1 c \<ge> 3 then RED
      else if p0 c = 0 \<and> ((p1 c \<ge> 1 \<and> p1 c \<le> 2) \<or> p2 c \<ge> 5) then AMBER
      else GREEN)"

text \<open>Select one proof.\<close>

definition rank :: "Severity \<Rightarrow> nat" where
  "rank s = (if s = P0 then 0 else if s = P1 then 1 else if s = P2 then 2 else 3)"

definition orderedFindings :: "RootCauses \<Rightarrow> Finding list" where
  "orderedFindings rc =
     sortBy (\<lambda>a b. int (rank (severity a)) - int (rank (severity b))) (map snd rc)"

definition proofPick :: "RootCauses \<Rightarrow> Finding option" where
  "proofPick rc =
     (let ordered = orderedFindings rc
      in case find (\<lambda>x. severity x = P0) ordered of
           Some x \<Rightarrow> Some x
         | None \<Rightarrow>
             (case find (\<lambda>x. severity x = P1) ordered of
                Some x \<Rightarrow> Some x
              | None \<Rightarrow> find (\<lambda>x. severity x = P2) ordered))"

definition proofOf :: "string \<Rightarrow> Finding option \<Rightarrow> Proof" where
  "proofOf domainOrigin pick =
     (case pick of
        Some f \<Rightarrow>
          \<lparr>pf_severity = (if severity f = P3 then P2 else severity f),
           pf_category = category f,
           pf_finding = truncate (finding f) 100,
           evidence_url = evidenceUrl f,
           evidence_snippet = truncate (snippet f) 200,
           why_it_suppresses = truncate (why f) 150,
           how_to_verify = truncate (verify f) 150\<rparr>
      | None \<Rightarrow>
          \<lparr>pf_severity = P2,
           pf_category = ''Moderate Drag'',
           pf_finding = ''No clear suppressors detected in limited public signals'',
           evidence_url = domainOrigin,
           evidence_snippet = ''No P0/P1 signals found in fetched artifacts.'',
           why_it_suppresses = ''With limited pages, some suppressors may be hidden or non-public.'',
           how_to_verify = ''Confirm robots/canonicals/noindex via source + headers, or run paid audit.''\<rparr>)"

text \<open>Trajectory (risk-level change only).\<close>

definition trajectoryOf :: "Baseline option \<Rightarrow> RiskLevel \<Rightarrow> Trajectory option" where
  "trajectoryOf bl to_level =
     (case bl of
        None \<Rightarrow> None
      | Some b \<Rightarrow>
          let from_level = bl_risk_level b
          in Some (if from_level = to_level then STABLE
                   else if from_level = RED \<and> to_level = AMBER then DOWN
                   else if from_level = AMBER \<and> to_level = GREEN then DOWN
                   else if from_level = GREEN \<and> to_level = AMBER then UP
                   else if from_level = AMBER \<and> to_level = RED then UP
                   else if from_level = GREEN \<and> to_level = RED then UP
                   else STABLE))"

definition interpretationOf :: "RiskLevel \<Rightarrow> string" where
  "interpretationOf risk =
     (if risk = RED then ''High suppression risk detected from public crawl/index signals.''
      else if risk = AMBER
      then ''Some suppression signals detected; investigate before scaling content/ads.''
      else ''No major kill-switch signals detected in limited public signals.'')"

definition analyzeArtifacts :: "Platform \<Rightarrow> ScanInput \<Rightarrow> Analysis" where
  "analyzeArtifacts P input =
     (let rootCauses = rootCausesOf P input;
          cs = countSeverities rootCauses;
          risk = riskOf cs
      in \<lparr>risk_level = risk,
          trajectory = trajectoryOf (baseline input) risk,
          counts = cs,
          interpretation_text = truncate (interpretationOf risk) 150,
          a_proof = proofOf (domain input) (proofPick rootCauses)\<rparr>)"

section \<open>The handler\<close>

text \<open>
  How a stretch of the handler ends: an exception that nothing catches, an early
  \<open>return json(...)\<close>, or its local state.
\<close>

datatype 'a Step = Throws | Respond HttpResult | Continue 'a

definition errorResult :: "ErrorType \<Rightarrow> string \<Rightarrow> HttpResult" where
  "errorResult t msg = json 400 (ErrorBody \<lparr>error_type = t, error_message = msg\<rparr>)"

text \<open>\<open>x || null\<close> for an optional string: an empty string counts as absent.\<close>

definition truthy :: "string option \<Rightarrow> string option" where
  "truthy x = (case x of None \<Rightarrow> None | Some v \<Rightarrow> if v = [] then None else Some v)"

definition urlInputOf :: "Event \<Rightarrow> string" where
  "urlInputOf ev =
     (let qsUrl = truthy (queryUrl ev);
          bodyUrl = (case parsedBody ev of None \<Rightarrow> None | Some b \<Rightarrow> truthy (body_url b))
      in trim (case qsUrl of Some v \<Rightarrow> v
               | None \<Rightarrow> (case bodyUrl of Some v \<Rightarrow> v | None \<Rightarrow> [])))"

text \<open>
  \<open>new URL(p, base)\<close> for the two path-absolute references \<open>/robots.txt\<close> and
  \<open>/sitemap.xml\<close>: against the http(s) URL of a response the URL parser keeps scheme,
  credentials, host and port of the base, takes the path from the reference and leaves
  query and fragment absent.
\<close>

definition rootRelative :: "string \<Rightarrow> URL \<Rightarrow> URL" where
  "rootRelative p base = base\<lparr>path := p, query := None, fragment := None\<rparr>"

definition hasHomepageHtml :: "ArtifactHtml \<Rightarrow> bool" where
  "hasHomepageHtml hp = (status hp \<ge> 200 \<and> status hp < 400 \<and> html hp \<noteq> None \<and> html hp \<noteq> Some [])"

text \<open>\<open>if (c) constraints.push(c)\<close>\<close>

definition pushed :: "string option \<Rightarrow> string list" where
  "pushed c = (case truthy c of None \<Rightarrow> [] | Some v \<Rightarrow> [v])"

definition sitemapPicksOf :: "Platform \<Rightarrow> ArtifactText \<Rightarrow> URL \<Rightarrow> URL list" where
  "sitemapPicksOf P sm base =
     (case text_body sm of
        None \<Rightarrow> []
      | Some t \<Rightarrow>
          if t \<noteq> [] \<and> status sm \<ge> 200 \<and> status sm < 400
          then take 2 (filter (\<lambda>u. pathname u \<noteq> ''/'') (extractSitemapLocs P t base))
          else [])"

text \<open>\<open>navPicks.forEach(pushUnique); sitemapPicks.forEach(pushUnique)\<close>\<close>

definition mergeExtraUrls :: "URL list \<Rightarrow> URL list \<Rightarrow> URL list" where
  "mergeExtraUrls navPicks sitemapPicks = dedupeUrls [] (navPicks @ sitemapPicks)"

definition truncatedPage :: "ArtifactHtml \<Rightarrow> bool" where
  "truncatedPage p = endsWith (pageHtml p) ''...''"

text \<open>
  The handler from the base URL to the assembly of \<open>scanInput\<close> (lines 753 to 821):
  robots and sitemap, the extra pages, the constraints.
\<close>

definition scanWithBase :: "Platform \<Rightarrow> Event \<Rightarrow> ArtifactHtml \<times> string option \<Rightarrow> URL \<Rightarrow> Scan"
  where
  "scanWithBase P ev homepageFetch base =
     (let hp = fst homepageFetch;
          robotsU = rootRelative ''/robots.txt'' base;
          sitemapU = rootRelative ''/sitemap.xml'' base;
          robotsFetch = fetchTextArtifact P robotsU;
          sitemapFetch = fetchTextArtifact P sitemapU;
          robots = fst robotsFetch;
          sitemap = fst sitemapFetch;
          homepageLinks = extractHomepageLinks P (pageHtml hp) base;
          navPicks = pickPriorityNavPages P homepageLinks 3;
          sitemapPicks = sitemapPicksOf P sitemap base;
          extras = mergeExtraUrls navPicks sitemapPicks;
          extraFetches = map (fetchHtmlArtifact P) extras;
          extraPages = map fst extraFetches;
          cons =
            pushed (snd homepageFetch) @
            pushed (snd robotsFetch) @
            pushed (snd sitemapFetch) @
            (if status robots = 404 \<or> status robots = 0 then [''robots_unavailable''] else []) @
            (if status sitemap = 404 \<or> status sitemap = 0 then [''sitemap_unavailable''] else []) @
            concat (map (\<lambda>f. pushed (snd f)) extraFetches) @
            (if truncatedPage hp then [''truncated_due_to_limits''] else []) @
            (if list_ex truncatedPage extraPages then [''truncated_due_to_limits''] else [])
      in \<lparr>base_url = base,
          robotsUrl = robotsU,
          sitemapUrl = sitemapU,
          extraUrls = extras,
          scanInput =
            \<lparr>domain = origin base,
             scan_date = take 10 (nowISO P),
             baseline = (case parsedBody ev of None \<Rightarrow> None | Some b \<Rightarrow> body_baseline b),
             artifacts =
               \<lparr>homepage = Some hp,
                robots_txt = Some robots,
                sitemap_xml = Some sitemap,
                extra_pages = Some extraPages\<rparr>,
             constraints = uniq cons\<rparr>\<rparr>)"

text \<open>
  The handler up to the assembly of \<open>scanInput\<close> (lines 689 to 821): the input URL, the
  guard, the homepage, then \<open>scanWithBase\<close>.
\<close>

definition handler_scan :: "Platform \<Rightarrow> Event \<Rightarrow> Scan Step" where
  "handler_scan P ev =
     (let urlInput = urlInputOf ev
      in if urlInput = []
         then Respond (errorResult INVALID_URL
                ''Missing ?url= parameter (or JSON body with { url }).'')
         else
         (case normalizeToOrigin P urlInput of
            None \<Rightarrow> Respond (errorResult INVALID_URL
                      ''Invalid URL. Provide a domain or absolute http(s) URL.'')
          | Some originUrl \<Rightarrow>
            (case truthy (basicSsrfGuards originUrl) of
               Some ssrfError \<Rightarrow> Respond (errorResult INVALID_URL ssrfError)
             | None \<Rightarrow>
               let homepageFetch = fetchHtmlArtifact P originUrl
               in if \<not> hasHomepageHtml (fst homepageFetch)
                  then Respond (errorResult INSUFFICIENT_DATA
                         ''Homepage HTML unavailable (non-200, fetch failed, or non-HTML). Cannot run suppression screen.'')
                  else
                  (case parseURL P (pageUrl (fst homepageFetch)) None of
                     None \<Rightarrow> Throws
                   | Some base \<Rightarrow> Continue (scanWithBase P ev homepageFetch base)))))"

text \<open>\<open>x.html || ""\<close> and \<open>x.text || ""\<close> of the artifacts, for the security flags.\<close>

definition artifactTexts :: "Artifacts \<Rightarrow> string list" where
  "artifactTexts a =
     [case homepage a of None \<Rightarrow> [] | Some h \<Rightarrow> pageHtml h,
      case robots_txt a of None \<Rightarrow> [] | Some r \<Rightarrow> (case text_body r of None \<Rightarrow> [] | Some t \<Rightarrow> t),
      case sitemap_xml a of None \<Rightarrow> [] | Some r \<Rightarrow> (case text_body r of None \<Rightarrow> [] | Some t \<Rightarrow> t)]
     @ map pageHtml (case extra_pages a of None \<Rightarrow> [] | Some es \<Rightarrow> es)"

text \<open>\<open>inputs_used\<close> and \<open>inputs_missing\<close>: each token goes to one of the two lists.\<close>

definition inputTokens :: "Artifacts \<Rightarrow> (string \<times> bool) list" where
  "inputTokens a =
     [(''homepage'', homepage a \<noteq> None),
      (''robots_txt'', robots_txt a \<noteq> None),
      (''sitemap_xml'', sitemap_xml a \<noteq> None),
      (''extra_pages'', extra_pages a \<noteq> None)]"

text \<open>The rest of the handler (lines 823 to 883): the report for a scan input.\<close>

definition handler_report :: "Platform \<Rightarrow> ScanInput \<Rightarrow> HttpResult" where
  "handler_report P si =
     (let flags_found = detectSecurityFlags (artifactTexts (artifacts si));
          analysis = analyzeArtifacts P si
      in json 200 (ReportBody
           \<lparr>scan_metadata =
              \<lparr>md_domain = domain si,
               md_scan_date = scan_date si,
               inputs_used = map fst (filter snd (inputTokens (artifacts si))),
               inputs_missing = map fst (filter (\<lambda>t. \<not> snd t) (inputTokens (artifacts si))),
               pages_analyzed =
                 1 + (case extra_pages (artifacts si) of None \<Rightarrow> 0 | Some es \<Rightarrow> length es)\<rparr>,
            result_risk_level = risk_level analysis,
            result_trajectory = trajectory analysis,
            result_counts = counts analysis,
            result_interpretation = interpretation_text analysis,
            o_proof = a_proof analysis,
            module_readiness_hint =
              ''This is a public-signals screen. If RED/AMBER, prioritize indexation/canonical/robots fixes before scaling content or paid traffic.'',
            confidence_note = STD_CONFIDENCE_NOTE,
            security_flags = flags_found,
            cta =
              \<lparr>primary_label = ''Book Growth Blocker Audit'',
               primary_description = STD_CTA_PRIMARY_DESC,
               secondary_label = ''Learn About Core'',
               secondary_description = STD_CTA_SECONDARY_DESC\<rparr>\<rparr>))"

text \<open>The handler: absent when the promise it returns rejects.\<close>

definition handler :: "Platform \<Rightarrow> Event \<Rightarrow> HttpResult option" where
  "handler P ev =
     (case handler_scan P ev of
        Throws \<Rightarrow> None
      | Respond r \<Rightarrow> Some r
      | Continue sc \<Rightarrow> Some (handler_report P (scanInput sc)))"

section \<open>An example platform\<close>

text \<open>
  A platform for the concrete runs below. Its URL parser reads absolute http(s) URLs
  with a plain host (no credentials, no port, no escapes) and path-absolute references
  against such a base, and rejects everything else; on those inputs it yields the URL
  record the WHATWG parser yields. Its \<open>localeCompare\<close> orders strings by code units, and
  its \<open>fetch\<close> looks the URL up in a table of responses.
\<close>

definition exSplitRest :: "string \<Rightarrow> string \<Rightarrow> URL option" where
  "exSplitRest sch rest =
     (let auth = takeWhile (\<lambda>c. c \<notin> set ''/?#'') rest;
          after = dropWhile (\<lambda>c. c \<notin> set ''/?#'') rest;
          pth = takeWhile (\<lambda>c. c \<notin> set ''?#'') after;
          after2 = dropWhile (\<lambda>c. c \<notin> set ''?#'') after;
          q = (if startsWith after2 ''?'' then Some (takeWhile (\<lambda>c. c \<noteq> CHR ''#'') (tl after2))
               else None);
          after3 = dropWhile (\<lambda>c. c \<noteq> CHR ''#'') after2;
          f = (if startsWith after3 ''#'' then Some (tl after3) else None)
      in if auth = [] \<or> list_ex (\<lambda>c. c \<in> set ''@:%[] '') auth then None
         else Some \<lparr>scheme = sch, username = [], password = [], host = Some (toLowerCase auth),
                    port = [], path = (if pth = [] then ''/'' else pth), query = q,
                    fragment = f\<rparr>)"

definition exParseAbs :: "string \<Rightarrow> URL option" where
  "exParseAbs s =
     (if startsWith s ''https://'' then exSplitRest ''https'' (drop 8 s)
      else if startsWith s ''http://'' then exSplitRest ''http'' (drop 7 s)
      else None)"

definition exParseURL :: "string \<Rightarrow> string option \<Rightarrow> URL option" where
  "exParseURL cand base =
     (case exParseAbs cand of
        Some u \<Rightarrow> Some u
      | None \<Rightarrow>
          (case base of
             None \<Rightarrow> None
           | Some b \<Rightarrow>
               (case exParseAbs b of
                  None \<Rightarrow> None
                | Some bu \<Rightarrow>
                    if startsWith cand ''/'' \<and> \<not> startsWith cand ''//''
                       \<and> \<not> list_ex (\<lambda>c. c \<in> set ''?#% '') cand
                    then Some (bu\<lparr>path := cand, query := None, fragment := None\<rparr>)
                    else None)))"

definition exCompare :: "string \<Rightarrow> string \<Rightarrow> int" where
  "exCompare a b = (if a = b then 0 else if a < b then - 1 else 1)"

definition exPlatform :: "(string \<times> Response) list \<Rightarrow> Platform" where
  "exPlatform table =
     \<lparr>fetch = map_of table, parseURL = exParseURL, localeCompare = exCompare,
      nowISO = ''2026-01-15T10:30:00.000Z''\<rparr>"

definition htmlResponse :: "string \<Rightarrow> string \<Rightarrow> Response" where
  "htmlResponse u b =
     \<lparr>res_url = u, res_status = 200,
      res_headers = [(''Content-Type'', ''text/html; charset=utf-8'')], res_text = Some b\<rparr>"

definition textResponse :: "string \<Rightarrow> string \<Rightarrow> Response" where
  "textResponse u b =
     \<lparr>res_url = u, res_status = 200, res_headers = [(''Content-Type'', ''text/plain'')],
      res_text = Some b\<rparr>"

definition notFound :: "string \<Rightarrow> Response" where
  "notFound u =
     \<lparr>res_url = u, res_status = 404, res_headers = [(''Content-Type'', ''text/html'')],
      res_text = Some ''Not Found''\<rparr>"

definition queryEvent :: "string \<Rightarrow> Event" where
  "queryEvent u = \<lparr>queryUrl = Some u, parsedBody = None\<rparr>"

text \<open>
  Scenario S1: a homepage with a title and no links, a robots.txt that disallows
  everything, no sitemap.
\<close>

definition s1_robots :: string where
  "s1_robots = ''User-agent: *'' @ [CHR 0x0A] @ ''Disallow: /''"

definition s1_home :: string where
  "s1_home = ''<html><head><title>Home</title></head><body><p>Hi</p></body></html>''"

definition s1_platform :: Platform where
  "s1_platform = exPlatform
     [(''https://site.example/'', htmlResponse ''https://site.example/'' s1_home),
      (''https://site.example/robots.txt'',
         textResponse ''https://site.example/robots.txt'' s1_robots),
      (''https://site.example/sitemap.xml'', notFound ''https://site.example/sitemap.xml'')]"

definition s1_event :: Event where
  "s1_event = queryEvent ''site.example''"

text \<open>The report of scenario S1.\<close>

definition s1_output :: Output where
  "s1_output =
     \<lparr>scan_metadata =
        \<lparr>md_domain = ''https://site.example'',
         md_scan_date = ''2026-01-15'',
         inputs_used = [''homepage'', ''robots_txt'', ''sitemap_xml'', ''extra_pages''],
         inputs_missing = [],
         pages_analyzed = 1\<rparr>,
      result_risk_level = RED,
      result_trajectory = None,
      result_counts = \<lparr>p0 = 1, p1 = 0, p2 = 0, p3 = 0\<rparr>,
      result_interpretation = ''High suppression risk detected from public crawl/index signals.'',
      o_proof =
        \<lparr>pf_severity = P0,
         pf_category = ''Indexation Kill Switch'',
         pf_finding = ''robots.txt appears to disallow all crawling'',
         evidence_url = ''robots.txt'',
         evidence_snippet = s1_robots,
         why_it_suppresses = ''If bots can't crawl, pages won't be indexed or refreshed reliably.'',
         how_to_verify = ''Open /robots.txt and confirm User-agent:* includes Disallow:/''\<rparr>,
      module_readiness_hint =
        ''This is a public-signals screen. If RED/AMBER, prioritize indexation/canonical/robots fixes before scaling content or paid traffic.'',
      confidence_note = STD_CONFIDENCE_NOTE,
      security_flags = [],
      cta =
        \<lparr>primary_label = ''Book Growth Blocker Audit'',
         primary_description = STD_CTA_PRIMARY_DESC,
         secondary_label = ''Learn About Core'',
         secondary_description = STD_CTA_SECONDARY_DESC\<rparr>\<rparr>"

section \<open>Invariants of the analyzer\<close>

text \<open>
  What every rule keeps true of the \<open>rootCauses\<close> map: its keys are distinct, and every
  finding in it has severity P0 or P2.
\<close>

definition wellKeyed :: "RootCauses \<Rightarrow> bool" where
  "wellKeyed rc =
     (distinct (map fst rc) \<and>
      list_all (\<lambda>e. severity (snd e) = P0 \<or> severity (snd e) = P2) rc)"

definition countOf :: "Severity \<Rightarrow> Finding list \<Rightarrow> nat" where
  "countOf s fs = length (filter (\<lambda>f. severity f = s) fs)"

section \<open>Character functions on the bits of a code unit\<close>

text \<open>
  The three character tables, decided on the eight bits of the code unit; these are the
  equations used when a concrete run is evaluated.
\<close>

lemma toLowerChar_Char [code]:
  "toLowerChar (Char b0 b1 b2 b3 b4 b5 b6 b7) =
     (if \<not> b5 \<and> b6 \<and> ((\<not> b7 \<and> letterBits b0 b1 b2 b3 b4) \<or> (b7 \<and> \<not> (b0 \<and> b1 \<and> b2 \<and> b4)))
      then Char b0 b1 b2 b3 b4 True b6 b7 else Char b0 b1 b2 b3 b4 b5 b6 b7)"
  by (cases b0; cases b1; cases b2; cases b3; cases b4; cases b5; cases b6; cases b7)
     (simp_all add: toLowerChar_def upperChars_def lowerChars_def letterBits_def)

lemma isWordChar_Char [code]:
  "isWordChar (Char b0 b1 b2 b3 b4 b5 b6 b7) =
     (\<not> b7 \<and>
      ((b6 \<and> letterBits b0 b1 b2 b3 b4) \<or>
       (b6 \<and> \<not> b5 \<and> b0 \<and> b1 \<and> b2 \<and> b3 \<and> b4) \<or>
       (\<not> b6 \<and> b5 \<and> b4 \<and> \<not> (b3 \<and> (b2 \<or> b1)))))"
  by (cases b0; cases b1; cases b2; cases b3; cases b4; cases b5; cases b6; cases b7)
     (simp_all add: isWordChar_def letterBits_def)

lemma isWhiteSpace_Char [code]:
  "isWhiteSpace (Char b0 b1 b2 b3 b4 b5 b6 b7) =
     (\<not> b6 \<and> \<not> b4 \<and>
      ((\<not> b7 \<and> \<not> b5 \<and> b3 \<and> (\<not> b2 \<or> \<not> b1) \<and> (b0 \<or> b1 \<or> b2)) \<or>
       (b5 \<and> \<not> b3 \<and> \<not> b2 \<and> \<not> b1 \<and> \<not> b0)))"
  by (cases b0; cases b1; cases b2; cases b3; cases b4; cases b5; cases b6; cases b7)
     (simp_all add: isWhiteSpace_def)

section \<open>The example runs\<close>

lemma s1_handler: "handler s1_platform s1_event = Some (json 200 (ReportBody s1_output))"
  by code_simp

section \<open>The shape of the handler's result\<close>

lemma handler_scan_Respond:
  assumes "handler_scan P ev = Respond r"
  shows "statusCode r = 400 \<and> (\<exists>e. body r = ErrorBody e)"
  using assms
  by (auto simp: handler_scan_def Let_def errorResult_def json_def
      split: if_splits option.splits)

lemma handler_report_shape:
  "statusCode (handler_report P si) = 200 \<and> (\<exists>out. body (handler_report P si) = ReportBody out)"
  by (simp add: handler_report_def json_def Let_def)

lemma handler_Some:
  assumes "handler P ev = Some r"
  shows "handler_scan P ev = Respond r \<or>
         (\<exists>sc. handler_scan P ev = Continue sc \<and> r = handler_report P (scanInput sc))"
  using assms by (auto simp: handler_def split: Step.splits)

lemma handler_report_of_body:
  assumes "handler P ev = Some r" and "body r = ReportBody out"
  shows "\<exists>sc. handler_scan P ev = Continue sc \<and> r = handler_report P (scanInput sc)"
  using handler_Some [OF assms(1)] handler_scan_Respond [of P ev r] assms(2) by auto

section \<open>Risk level\<close>

text \<open>
  C1. For every scan that produces a success report, the report's risk level is RED
  exactly when \<open>p0 \<ge> 1\<close> or \<open>p1 \<ge> 3\<close>; otherwise it is AMBER exactly when \<open>p0 = 0\<close> and
  (\<open>1 \<le> p1 \<le> 2\<close> or \<open>p2 \<ge> 5\<close>); otherwise it is GREEN.
\<close>

theorem risk_level_formula:
  assumes "handler P ev = Some r" and "body r = ReportBody out"
  shows "(result_risk_level out = RED \<longleftrightarrow>
            p0 (result_counts out) \<ge> 1 \<or> p1 (result_counts out) \<ge> 3) \<and>
         (result_risk_level out = AMBER \<longleftrightarrow>
            \<not> (p0 (result_counts out) \<ge> 1 \<or> p1 (result_counts out) \<ge> 3) \<and>
            p0 (result_counts out) = 0 \<and>
            ((1 \<le> p1 (result_counts out) \<and> p1 (result_counts out) \<le> 2) \<or>
             p2 (result_counts out) \<ge> 5)) \<and>
         (result_risk_level out = GREEN \<longleftrightarrow>
            \<not> (p0 (result_counts out) \<ge> 1 \<or> p1 (result_counts out) \<ge> 3) \<and>
            \<not> (p0 (result_counts out) = 0 \<and>
               ((1 \<le> p1 (result_counts out) \<and> p1 (result_counts out) \<le> 2) \<or>
                p2 (result_counts out) \<ge> 5)))"
proof -
  from handler_report_of_body [OF assms] obtain sc :: Scan
    where r: "r = handler_report P (scanInput sc)" by blast
  with assms(2) have "result_risk_level out = riskOf (result_counts out)"
    by (auto simp: handler_report_def json_def analyzeArtifacts_def Let_def)
  then show ?thesis
    by (simp add: riskOf_def)
qed

theorem risk_level_formula_witness:
  "handler s1_platform s1_event = Some (json 200 (ReportBody s1_output)) \<and>
   body (json 200 (ReportBody s1_output)) = ReportBody s1_output \<and>
   result_risk_level s1_output = RED \<and>
   p0 (result_counts s1_output) = 1 \<and> p1 (result_counts s1_output) = 0"
  using risk_level_formula [OF s1_handler, of s1_output] s1_handler
  by (simp add: json_def s1_output_def)

end
